theory Spec2Isabelle
  imports Complex_Main "HOL-Library.Word"
begin

section \<open>Data model of \<open>midiroll/roll.py\<close>\<close>

text \<open>
  The exceptions the modelled code can raise. A result is \<open>error + 'a\<close>, with \<open>Inl\<close> the
  raised exception.
\<close>

datatype error = TypeError | IndexError | ZeroDivisionError

text \<open>
  A message of a track, as \<open>mido\<close> decodes it. Channel voice messages carry their channel;
  \<open>sysex\<close> messages, meta messages and unknown meta messages have no \<open>channel\<close>
  attribute, except a meta message whose attribute dictionary holds one
  (\<open>channel_prefix\<close>). Velocities, controller numbers and values are Python integers;
  note numbers index lists and delta times are the variable-length quantities of the file
  format, so both are naturals. The type names of meta messages are disjoint from those of
  the channel messages.
\<close>

datatype other_kind = Polytouch | Aftertouch | Pitchwheel

datatype message =
    NoteOn nat nat int nat
  | NoteOff nat nat int nat
  | ControlChange nat int int nat
  | ProgramChange nat int nat
  | OtherChannel other_kind nat nat
  | Sysex "nat list" nat
  | MetaMessage string "(string \<times> int) list" nat
  | UnknownMetaMessage nat "nat list" nat

fun msg_type :: "message \<Rightarrow> string" where
  "msg_type (NoteOn c n v t) = ''note_on''"
| "msg_type (NoteOff c n v t) = ''note_off''"
| "msg_type (ControlChange c k v t) = ''control_change''"
| "msg_type (ProgramChange c p t) = ''program_change''"
| "msg_type (OtherChannel Polytouch c t) = ''polytouch''"
| "msg_type (OtherChannel Aftertouch c t) = ''aftertouch''"
| "msg_type (OtherChannel Pitchwheel c t) = ''pitchwheel''"
| "msg_type (Sysex d t) = ''sysex''"
| "msg_type (MetaMessage name attrs t) = name"
| "msg_type (UnknownMetaMessage b d t) = ''unknown_meta''"

text \<open>\<open>msg.time\<close>.\<close>

fun msg_time :: "message \<Rightarrow> nat" where
  "msg_time (NoteOn c n v t) = t"
| "msg_time (NoteOff c n v t) = t"
| "msg_time (ControlChange c k v t) = t"
| "msg_time (ProgramChange c p t) = t"
| "msg_time (OtherChannel k c t) = t"
| "msg_time (Sysex d t) = t"
| "msg_time (MetaMessage name attrs t) = t"
| "msg_time (UnknownMetaMessage b d t) = t"

text \<open>\<open>msg.channel\<close>: \<open>None\<close> is the \<open>AttributeError\<close> of a message without the attribute.\<close>

fun msg_channel :: "message \<Rightarrow> nat option" where
  "msg_channel (NoteOn c n v t) = Some c"
| "msg_channel (NoteOff c n v t) = Some c"
| "msg_channel (ControlChange c k v t) = Some c"
| "msg_channel (ProgramChange c p t) = Some c"
| "msg_channel (OtherChannel k c t) = Some c"
| "msg_channel (Sysex d t) = None"
| "msg_channel (MetaMessage name attrs t) = map_option nat (map_of attrs ''channel'')"
| "msg_channel (UnknownMetaMessage b d t) = None"

text \<open>
  The Python classes that \<open>type(...)\<close> can return in \<open>get_events\<close>: the three message
  classes, and the metaclass \<open>type\<close>, which is the type of every class object.
\<close>

datatype pyclass = Cls_Message | Cls_MetaMessage | Cls_UnknownMetaMessage | Cls_type

fun type_of_msg :: "message \<Rightarrow> pyclass" where
  "type_of_msg (MetaMessage name attrs t) = Cls_MetaMessage"
| "type_of_msg (UnknownMetaMessage b d t) = Cls_UnknownMetaMessage"
| "type_of_msg m = Cls_Message"

text \<open>\<open>type(mido.UnknownMetaMessage)\<close>: the type of the class object itself.\<close>

definition type_of_UnknownMetaMessage :: pyclass where
  "type_of_UnknownMetaMessage = Cls_type"

text \<open>
  A slot of \<open>register_note\<close>: \<open>-1\<close> is \<open>Inactive\<close>, a tuple
  \<open>(end_time, intensity)\<close> is \<open>Active\<close>.
\<close>

datatype slot = Inactive | Active nat int

text \<open>
  The object under construction. \<open>meta\<close> maps a type name to the message recorded under
  it (its \<open>dict()\<close>). Floats (\<open>length_seconds\<close>, \<open>ticks_per_sec\<close>) are rationals: the
  only float operations are one product, one quotient and a division that raises at a zero
  divisor. The cells of \<open>roll\<close> are \<open>int8\<close>.
\<close>

type_synonym int8 = "8 word"

record MidiFile =
  sr :: nat
  meta :: "string \<rightharpoonup> message"
  max_nch :: nat
  intensity_range :: "int \<times> int"
  note_range :: "nat \<times> nat"
  tracks :: "message list list"
  ticks_per_beat :: nat
  events :: "message list list"
  nch :: nat
  roll :: "int8 list list list"
  length_ticks :: nat
  length_seconds :: rat
  ticks_per_sec :: rat

section \<open>\<open>get_tempo\<close> and \<open>get_total_ticks\<close>\<close>

fun msg_attr :: "message \<Rightarrow> string \<Rightarrow> int option" where
  "msg_attr (MetaMessage name attrs t) k = map_of attrs k"
| "msg_attr m k = None"

definition get_tempo :: "MidiFile \<Rightarrow> int" where
  "get_tempo self =
     (case meta self ''set_tempo'' of
        None \<Rightarrow> 500000
      | Some m \<Rightarrow> (case msg_attr m ''tempo'' of None \<Rightarrow> 500000 | Some t \<Rightarrow> t))"

definition channel_ticks :: "message list \<Rightarrow> nat" where
  "channel_ticks channel = sum_list (map msg_time channel)"

text \<open>The loop \<open>for channel in range(self.nch)\<close>; \<open>self.events[channel]\<close> may be out of range.\<close>

fun total_ticks_loop :: "message list list \<Rightarrow> nat list \<Rightarrow> nat \<Rightarrow> error + nat" where
  "total_ticks_loop evs [] max_ticks = Inr max_ticks"
| "total_ticks_loop evs (channel # rest) max_ticks =
     (if channel < length evs
      then (let ticks = channel_ticks (evs ! channel)
            in total_ticks_loop evs rest (if ticks > max_ticks then ticks else max_ticks))
      else Inl IndexError)"

definition get_total_ticks :: "MidiFile \<Rightarrow> error + nat" where
  "get_total_ticks self = total_ticks_loop (events self) [0..<nch self] 0"

section \<open>\<open>get_events\<close>\<close>

text \<open>
  One message of the inner loop. With a \<open>channel\<close> attribute the message is appended to
  \<open>events[channel]\<close> (an index out of range is not caught by \<open>except AttributeError\<close>);
  without one, the handler compares \<open>type(msg)\<close> with \<open>type(mido.UnknownMetaMessage)\<close>.
\<close>

definition demux_msg ::
  "message \<Rightarrow> message list list \<times> (string \<rightharpoonup> message) \<Rightarrow>
   error + (message list list \<times> (string \<rightharpoonup> message))" where
  "demux_msg msg st =
     (case st of (evs, mt) \<Rightarrow>
        (case msg_channel msg of
           Some channel \<Rightarrow>
             (if channel < length evs
              then Inr (evs[channel := evs ! channel @ [msg]], mt)
              else Inl IndexError)
         | None \<Rightarrow>
             (if type_of_msg msg \<noteq> type_of_UnknownMetaMessage
              then Inr (evs, mt(msg_type msg \<mapsto> msg))
              else Inr (evs, mt))))"

fun demux_loop ::
  "message list \<Rightarrow> message list list \<times> (string \<rightharpoonup> message) \<Rightarrow>
   error + (message list list \<times> (string \<rightharpoonup> message))" where
  "demux_loop [] st = Inr st"
| "demux_loop (msg # rest) st =
     (case demux_msg msg st of Inl e \<Rightarrow> Inl e | Inr st' \<Rightarrow> demux_loop rest st')"

text \<open>
  The nested loops \<open>for track in mid.tracks: for msg in track\<close> visit the messages of
  \<open>concat tracks\<close> in order. \<open>get_events\<close> returns \<open>(events, len(events))\<close> and leaves the recorded messages in
  \<open>self.meta\<close>, returned here as the third component.
\<close>

definition get_events ::
  "MidiFile \<Rightarrow> error + (message list list \<times> nat \<times> (string \<rightharpoonup> message))" where
  "get_events self =
     (case demux_loop (concat (tracks self)) (replicate (max_nch self) [], meta self) of
        Inl e \<Rightarrow> Inl e
      | Inr (evs, mt) \<Rightarrow>
          (let evs' = filter (\<lambda>channel. channel \<noteq> []) evs in Inr (evs', length evs', mt)))"

section \<open>\<open>get_roll\<close>\<close>

text \<open>
  The frame of a running \<open>get_roll\<close>: the object \<open>self\<close> (whose \<open>intensity_range\<close> and
  \<open>note_range\<close> the loop mutates) and the local variables. \<open>register_timbre\<close> is a float
  array that only ever holds integers.
\<close>

record frame =
  obj :: MidiFile
  lroll :: "int8 list list list"
  register_note :: "slot list"
  register_timbre :: "int list"
  time_counter :: nat
  volume :: int

text \<open>
  \<open>row[a:b] = v\<close> on a row of the \<open>int8\<close> array, for non-negative \<open>a\<close> and \<open>b\<close>: the
  slice is clipped to the row, and the Python integer is converted to \<open>int8\<close>.
\<close>

definition paint :: "int8 list \<Rightarrow> nat \<Rightarrow> nat \<Rightarrow> int \<Rightarrow> int8 list" where
  "paint row a b v =
     map (\<lambda>i. if a \<le> i \<and> i < b then word_of_int v else row ! i) [0..<length row]"

text \<open>\<open>roll[idx, key, a:b] = v\<close>; the two indices raise when out of range.\<close>

definition roll_assign ::
  "int8 list list list \<Rightarrow> nat \<Rightarrow> nat \<Rightarrow> nat \<Rightarrow> nat \<Rightarrow> int \<Rightarrow> error + int8 list list list" where
  "roll_assign r idx key a b v =
     (if idx < length r \<and> key < length (r ! idx)
      then Inr (r[idx := (r ! idx)[key := paint (r ! idx ! key) a b v]])
      else Inl IndexError)"

text \<open>\<open>roll[idx, key, a:] = v\<close>.\<close>

definition roll_assign_from ::
  "int8 list list list \<Rightarrow> nat \<Rightarrow> nat \<Rightarrow> nat \<Rightarrow> int \<Rightarrow> error + int8 list list list" where
  "roll_assign_from r idx key a v =
     (if idx < length r \<and> key < length (r ! idx)
      then Inr (r[idx := (r ! idx)[key := paint (r ! idx ! key) a (length (r ! idx ! key)) v]])
      else Inl IndexError)"

text \<open>
  The two \<open>if\<close> statements that update a \<open>[min, max]\<close> range with a new value, in
  the order of the source.
\<close>

definition update_range :: "'a::linorder \<times> 'a \<Rightarrow> 'a \<Rightarrow> 'a \<times> 'a" where
  "update_range r x =
     (let r1 = (if fst r > x then (x, snd r) else r)
      in if snd r1 < x then (fst r1, x) else r1)"

text \<open>
  The body of \<open>for msg in channel\<close>, ending with \<open>time_counter += msg.time\<close>. The branches
  are the four tests on \<open>msg.type\<close>; any other message only advances the time.
\<close>

fun process_msg :: "nat \<Rightarrow> message \<Rightarrow> frame \<Rightarrow> error + frame" where
  "process_msg idx (ControlChange c k v t) st =
     (let volume1 = (if k = 7 then (100 * v) div 127 else volume st);
          volume2 = (if k = 11 then volume1 * (v div 127) else volume1)
      in Inr (st\<lparr>volume := volume2, time_counter := time_counter st + t\<rparr>))"
| "process_msg idx (ProgramChange c p t) st =
     (if idx < length (register_timbre st)
      then Inr (st\<lparr>register_timbre := (register_timbre st)[idx := p],
                   time_counter := time_counter st + t\<rparr>)
      else Inl IndexError)"
| "process_msg idx (NoteOn c n v t) st =
     (if sr (obj st) = 0 then Inl ZeroDivisionError
      else
       (let note_on_end_time = (time_counter st + t) div sr (obj st);
            intensity = (volume st * v) div 127;
            self1 = (obj st)\<lparr>intensity_range := update_range (intensity_range (obj st)) intensity\<rparr>
        in if n < length (register_note st)
           then
            (case (case register_note st ! n of
                     Inactive \<Rightarrow> Inr (lroll st)
                   | Active last_end_time last_intensity \<Rightarrow>
                       roll_assign (lroll st) idx n last_end_time note_on_end_time last_intensity) of
               Inl e \<Rightarrow> Inl e
             | Inr r \<Rightarrow>
                 Inr (st\<lparr>obj := self1\<lparr>note_range := update_range (note_range self1) n\<rparr>,
                         lroll := r,
                         register_note := (register_note st)[n := Active note_on_end_time intensity],
                         time_counter := time_counter st + t\<rparr>))
           else Inl IndexError))"
| "process_msg idx (NoteOff c n v t) st =
     (if sr (obj st) = 0 then Inl ZeroDivisionError
      else
       (let note_off_end_time = (time_counter st + t) div sr (obj st)
        in if n < length (register_note st)
           then
            (case register_note st ! n of
               Inactive \<Rightarrow> Inl TypeError
             | Active last_end_time last_intensity \<Rightarrow>
                 (case roll_assign (lroll st) idx n last_end_time note_off_end_time last_intensity of
                    Inl e \<Rightarrow> Inl e
                  | Inr r \<Rightarrow>
                      Inr (st\<lparr>lroll := r,
                              register_note := (register_note st)[n := Inactive],
                              time_counter := time_counter st + t\<rparr>)))
           else Inl IndexError))"
| "process_msg idx m st = Inr (st\<lparr>time_counter := time_counter st + msg_time m\<rparr>)"

fun msg_loop :: "nat \<Rightarrow> message list \<Rightarrow> frame \<Rightarrow> error + frame" where
  "msg_loop idx [] st = Inr st"
| "msg_loop idx (msg # rest) st =
     (case process_msg idx msg st of Inl e \<Rightarrow> Inl e | Inr st' \<Rightarrow> msg_loop idx rest st')"

text \<open>
  The loop \<open>for key, data in enumerate(register_note)\<close> after a channel: \<open>data\<close> is the
  slot as it is when the iteration reaches \<open>key\<close>, and the last statement of the body
  assigns to \<open>register_note[idx]\<close>.
\<close>

fun close_loop :: "nat \<Rightarrow> nat list \<Rightarrow> frame \<Rightarrow> error + frame" where
  "close_loop idx [] st = Inr st"
| "close_loop idx (key # rest) st =
     (case (case register_note st ! key of
              Inactive \<Rightarrow> Inr (lroll st)
            | Active note_on_end_time intensity \<Rightarrow>
                roll_assign_from (lroll st) idx key note_on_end_time intensity) of
        Inl e \<Rightarrow> Inl e
      | Inr r \<Rightarrow>
          (if idx < length (register_note st)
           then close_loop idx rest
                  (st\<lparr>lroll := r, register_note := (register_note st)[idx := Inactive]\<rparr>)
           else Inl IndexError))"

text \<open>
  One iteration of \<open>for idx, channel in enumerate(events)\<close>: \<open>time_counter\<close> and
  \<open>volume\<close> are assigned, the messages are processed, the open notes are closed.
\<close>

definition channel_pass :: "nat \<Rightarrow> message list \<Rightarrow> frame \<Rightarrow> error + frame" where
  "channel_pass idx channel st =
     (case msg_loop idx channel (st\<lparr>time_counter := 0, volume := 100\<rparr>) of
        Inl e \<Rightarrow> Inl e
      | Inr st' \<Rightarrow> close_loop idx [0..<length (register_note st')] st')"

fun channels_loop :: "nat \<Rightarrow> message list list \<Rightarrow> frame \<Rightarrow> error + frame" where
  "channels_loop idx [] st = Inr st"
| "channels_loop idx (channel # rest) st =
     (case channel_pass idx channel st of
        Inl e \<Rightarrow> Inl e
      | Inr st' \<Rightarrow> channels_loop (Suc idx) rest st')"

text \<open>
  The frame before the loop over the channels. \<open>time_counter\<close> and \<open>volume\<close> are not
  bound yet in the source; every channel assigns them before reading them.
\<close>

definition init_frame :: "MidiFile \<Rightarrow> nat \<Rightarrow> frame" where
  "init_frame self ticks =
     \<lparr>obj = self,
      lroll = replicate (nch self) (replicate 128 (replicate (ticks div sr self) 0)),
      register_note = replicate 128 Inactive,
      register_timbre = replicate (nch self) 1,
      time_counter = 0,
      volume = 100\<rparr>"

text \<open>
  \<open>get_roll\<close> returns \<open>roll\<close>; the mutated \<open>self\<close> is returned beside it.
\<close>

definition get_roll ::
  "MidiFile \<Rightarrow> message list list \<Rightarrow> error + (int8 list list list \<times> MidiFile)" where
  "get_roll self evs =
     (case get_total_ticks self of
        Inl e \<Rightarrow> Inl e
      | Inr ticks \<Rightarrow>
          (if sr self = 0 then Inl ZeroDivisionError
           else
            (case channels_loop 0 evs (init_frame self ticks) of
               Inl e \<Rightarrow> Inl e
             | Inr st \<Rightarrow> Inr (lroll st, obj st))))"

section \<open>The constructor\<close>

text \<open>
  \<open>mido.tick2second\<close>: \<open>scale = tempo * 1e-6 / ticks_per_beat\<close>, \<open>tick * scale\<close>.
\<close>

definition tick2second :: "nat \<Rightarrow> nat \<Rightarrow> int \<Rightarrow> error + rat" where
  "tick2second tick tpb tempo =
     (if tpb = 0 then Inl ZeroDivisionError
      else Inr (of_nat tick * (of_int tempo * (1 / 1000000) / of_nat tpb)))"

text \<open>
  The attributes assigned before \<open>mido\<close> parses the file. The attributes assigned later
  hold placeholders until then.
\<close>

definition new_MidiFile :: "message list list \<Rightarrow> nat \<Rightarrow> MidiFile" where
  "new_MidiFile trks tpb =
     \<lparr>sr = 10, meta = Map.empty, max_nch = 16,
      intensity_range = (100, 0), note_range = (127, 0),
      tracks = trks, ticks_per_beat = tpb,
      events = [], nch = 0, roll = [],
      length_ticks = 0, length_seconds = 0, ticks_per_sec = 0\<rparr>"

text \<open>
  \<open>MidiFile.__init__\<close>, from the tracks and the resolution that \<open>mido\<close> has read, up to
  the assignment of \<open>ticks_per_sec\<close>; what follows only writes to the sidebar.
\<close>

definition MidiFile_init :: "message list list \<Rightarrow> nat \<Rightarrow> error + MidiFile" where
  "MidiFile_init trks tpb =
     (let self0 = new_MidiFile trks tpb in
      case get_events self0 of
        Inl e \<Rightarrow> Inl e
      | Inr (evs, n, mt) \<Rightarrow>
          (let self1 = self0\<lparr>meta := mt, events := evs, nch := n\<rparr> in
           case get_roll self1 (events self1) of
             Inl e \<Rightarrow> Inl e
           | Inr (r, self2) \<Rightarrow>
               (let self3 = self2\<lparr>roll := r\<rparr> in
                case get_total_ticks self3 of
                  Inl e \<Rightarrow> Inl e
                | Inr ticks \<Rightarrow>
                    (let self4 = self3\<lparr>length_ticks := ticks\<rparr> in
                     case tick2second (length_ticks self4) (ticks_per_beat self4) (get_tempo self4) of
                       Inl e \<Rightarrow> Inl e
                     | Inr secs \<Rightarrow>
                         (let self5 = self4\<lparr>length_seconds := secs\<rparr> in
                          if length_seconds self5 = 0 then Inl ZeroDivisionError
                          else Inr (self5\<lparr>ticks_per_sec :=
                                 of_nat (length_ticks self5) / length_seconds self5\<rparr>))))))"

section \<open>Predicates used in the statements\<close>



text \<open>The velocity and the controller value of a message lie in 0..127.\<close>

fun data_in_range :: "message \<Rightarrow> bool" where
  "data_in_range (NoteOn c n v t) = (0 \<le> v \<and> v \<le> 127)"
| "data_in_range (NoteOff c n v t) = (0 \<le> v \<and> v \<le> 127)"
| "data_in_range (ControlChange c k v t) = (0 \<le> v \<and> v \<le> 127)"
| "data_in_range m = True"



text \<open>
  The invariant of the frame for inputs in range: \<open>volume\<close> and every registered
  intensity lie in 0..100, and so does every cell of the matrix read as a signed byte.
\<close>

definition slot_ok :: "slot \<Rightarrow> bool" where
  "slot_ok s = (case s of Inactive \<Rightarrow> True | Active e i \<Rightarrow> 0 \<le> i \<and> i \<le> 100)"

definition cell_ok :: "int8 \<Rightarrow> bool" where
  "cell_ok c = (0 \<le> sint c \<and> sint c \<le> 100)"

definition frame_ok :: "frame \<Rightarrow> bool" where
  "frame_ok st =
     (0 \<le> volume st \<and> volume st \<le> 100
      \<and> list_all slot_ok (register_note st)
      \<and> list_all (list_all (list_all cell_ok)) (lroll st))"

section \<open>Behaviour at concrete inputs\<close>

text \<open>
  C1. The register is meant to be reset for every channel: at the start of a channel's pass
  all 128 slots are \<open>Inactive\<close>, and at its end they are \<open>Inactive\<close> again. The code
  creates \<open>register_note\<close> once, before the loop over the channels, and the closing loop
  assigns \<open>register_note[idx] = -1\<close> (the channel index) instead of
  \<open>register_note[key] = -1\<close>. After the pass of channel 0 over a single unclosed
  \<open>note_on\<close> of pitch 60 the slot 60 is still \<open>Active\<close>; and with a second channel
  that never plays pitch 60, the row of pitch 60 of that channel is painted with the value
  left by channel 0.
\<close>

theorem C1_register_carries_over:
  "(case channel_pass 0 [NoteOn 0 60 127 0]
          (init_frame ((new_MidiFile [] 480)\<lparr>events := [[NoteOn 0 60 127 0]], nch := 1\<rparr>) 0) of
      Inl e \<Rightarrow> False
    | Inr st \<Rightarrow> register_note st ! 60 = Active 0 100)
   \<and> (case get_roll ((new_MidiFile [] 480)
                      \<lparr>events := [[NoteOn 0 60 127 0, NoteOn 0 62 127 20], [NoteOn 1 61 127 0]],
                       nch := 2\<rparr>)
                 [[NoteOn 0 60 127 0, NoteOn 0 62 127 20], [NoteOn 1 61 127 0]] of
         Inl e \<Rightarrow> False
       | Inr (r, s) \<Rightarrow> map sint (r ! 1 ! 60) = [100, 100])"
  by code_simp

text \<open>
  C2. A \<open>note_off\<close> whose register slot is \<open>Inactive\<close> is meant to be a no-op. The
  \<open>note_off\<close> branch unpacks \<open>register_note[msg.note]\<close> without the test
  \<open>!= -1\<close> that the \<open>note_on\<close> branch makes, so unpacking \<open>-1\<close> raises
  \<open>TypeError\<close>: for the single message and for the whole constructor.
\<close>

theorem C2_note_off_inactive_raises:
  "(case process_msg 0 (NoteOff 0 60 0 0)
          (init_frame ((new_MidiFile [] 480)\<lparr>events := [[NoteOff 0 60 0 0]], nch := 1\<rparr>) 0) of
      Inl e \<Rightarrow> e = TypeError
    | Inr st \<Rightarrow> False)
   \<and> (case MidiFile_init [[NoteOff 0 60 0 0]] 480 of
         Inl e \<Rightarrow> e = TypeError
       | Inr self \<Rightarrow> False)"
  by code_simp

text \<open>
  C3. A file without any channel message is meant to give a defined empty result.
  \<open>get_roll\<close> does return a matrix with zero rows, but the constructor then divides
  \<open>length_ticks\<close> by \<open>length_seconds\<close>, both 0, and raises \<open>ZeroDivisionError\<close>;
  the same happens with one channel whose delta times sum to 0.
\<close>

theorem C3_empty_performance_raises:
  "(case get_roll (new_MidiFile [[MetaMessage ''end_of_track'' [] 0]] 480) [] of
      Inl e \<Rightarrow> False
    | Inr (r, s) \<Rightarrow> r = [])
   \<and> (case MidiFile_init [[MetaMessage ''end_of_track'' [] 0]] 480 of
         Inl e \<Rightarrow> e = ZeroDivisionError
       | Inr self \<Rightarrow> False)
   \<and> (case MidiFile_init [[NoteOn 0 60 64 0]] 480 of
         Inl e \<Rightarrow> e = ZeroDivisionError
       | Inr self \<Rightarrow> False)"
  by code_simp

text \<open>
  C4. Unknown meta messages are meant to be skipped by the demultiplexer. The test
  compares \<open>type(msg)\<close> with \<open>type(mido.UnknownMetaMessage)\<close>, the metaclass, which no
  message has as its type: the unknown meta message is recorded into \<open>meta\<close> under
  \<open>unknown_meta\<close>.
\<close>

theorem C4_unknown_meta_recorded:
  "(case get_events (new_MidiFile [[UnknownMetaMessage 96 [] 0]] 480) of
      Inl e \<Rightarrow> False
    | Inr (evs, n, mt) \<Rightarrow> mt ''unknown_meta'' = Some (UnknownMetaMessage 96 [] 0))"
  by code_simp

section \<open>Rows and frames\<close>



lemma get_roll_run:
  assumes "get_roll self evs = Inr (r, self')"
  shows "\<exists>ticks st. get_total_ticks self = Inr ticks \<and> sr self \<noteq> 0
           \<and> channels_loop 0 evs (init_frame self ticks) = Inr st
           \<and> r = lroll st \<and> self' = obj st"
  using assms by (auto simp: get_roll_def split: sum.splits if_splits)

section \<open>Single messages\<close>











section \<open>The ranges\<close>
























section \<open>Intensities and \<open>int8\<close>\<close>

lemma int8_exact: "0 \<le> i \<Longrightarrow> i \<le> 100 \<Longrightarrow> sint (word_of_int i :: int8) = i"
  by (simp add: signed_of_int signed_take_bit_int_eq_self)

lemma cell_ok_of_int: "0 \<le> i \<Longrightarrow> i \<le> 100 \<Longrightarrow> cell_ok (word_of_int i)"
  by (simp add: cell_ok_def int8_exact)

lemma list_all_update: "list_all P xs \<Longrightarrow> P x \<Longrightarrow> list_all P (xs[i := x])"
  using set_update_subset_insert[of xs i x] by (auto simp: list_all_iff)

lemma list_all_nth: "list_all P xs \<Longrightarrow> i < length xs \<Longrightarrow> P (xs ! i)"
  by (simp add: list_all_length)

lemma paint_ok:
  "list_all cell_ok row \<Longrightarrow> 0 \<le> v \<Longrightarrow> v \<le> 100 \<Longrightarrow> list_all cell_ok (paint row a b v)"
  by (auto simp: paint_def list_all_iff cell_ok_of_int)

lemma roll_update_ok:
  assumes "list_all (list_all (list_all cell_ok)) r" and "0 \<le> v" and "v \<le> 100"
    and "idx < length r" and "key < length (r ! idx)"
  shows "list_all (list_all (list_all cell_ok))
           (r[idx := (r ! idx)[key := paint (r ! idx ! key) a b v]])"
proof -
  from assms(1,4) have ch: "list_all (list_all cell_ok) (r ! idx)" by (rule list_all_nth)
  from ch assms(5) have "list_all cell_ok (r ! idx ! key)" by (rule list_all_nth)
  then have "list_all cell_ok (paint (r ! idx ! key) a b v)"
    using assms(2,3) by (rule paint_ok)
  with ch have "list_all (list_all cell_ok) ((r ! idx)[key := paint (r ! idx ! key) a b v])"
    by (rule list_all_update)
  with assms(1) show ?thesis by (rule list_all_update)
qed

lemma roll_assign_ok:
  assumes "roll_assign r idx key a b v = Inr r'"
    and "list_all (list_all (list_all cell_ok)) r" and "0 \<le> v" and "v \<le> 100"
  shows "list_all (list_all (list_all cell_ok)) r'"
  using assms by (auto simp: roll_assign_def roll_update_ok split: if_splits)

lemma roll_assign_from_ok:
  assumes "roll_assign_from r idx key a v = Inr r'"
    and "list_all (list_all (list_all cell_ok)) r" and "0 \<le> v" and "v \<le> 100"
  shows "list_all (list_all (list_all cell_ok)) r'"
  using assms by (auto simp: roll_assign_from_def roll_update_ok split: if_splits)

lemma div127_bounds: "0 \<le> x \<Longrightarrow> x \<le> 12700 \<Longrightarrow> 0 \<le> x div 127 \<and> x div 127 \<le> (100::int)"
  by presburger

lemma volume7_bounds:
  "0 \<le> v \<Longrightarrow> v \<le> 127 \<Longrightarrow> 0 \<le> (100 * v) div 127 \<and> (100 * v) div 127 \<le> (100::int)"
  by (rule div127_bounds) simp_all

lemma volume11_bounds:
  assumes "0 \<le> v" "v \<le> 127" "0 \<le> vol" "vol \<le> 100"
  shows "0 \<le> vol * (v div 127) \<and> vol * (v div 127) \<le> (100::int)"
proof -
  from assms(1,2) have "v div 127 = 0 \<or> v div 127 = 1" by presburger
  with assms(3,4) show ?thesis by auto
qed

lemma intensity_bounds:
  assumes "0 \<le> v" "v \<le> 127" "0 \<le> vol" "vol \<le> 100"
  shows "0 \<le> (vol * v) div 127 \<and> (vol * v) div 127 \<le> (100::int)"
proof -
  from assms have "0 \<le> vol * v" by simp
  moreover from assms have "vol * v \<le> 100 * 127" by (intro mult_mono) simp_all
  ultimately show ?thesis by (simp add: div127_bounds)
qed

lemma slot_ok_nth:
  "list_all slot_ok reg \<Longrightarrow> n < length reg \<Longrightarrow> reg ! n = Active e i \<Longrightarrow> 0 \<le> i \<and> i \<le> 100"
  using list_all_nth[of slot_ok reg n] by (simp add: slot_ok_def)

lemma process_msg_ok:
  assumes "process_msg idx m st = Inr st'" and "frame_ok st" and "data_in_range m"
  shows "frame_ok st'"
proof (cases m)
  case (NoteOn c n v t)
  from assms(2) have vol: "0 \<le> volume st" "volume st \<le> 100"
    and reg: "list_all slot_ok (register_note st)"
    and cells: "list_all (list_all (list_all cell_ok)) (lroll st)"
    by (simp_all add: frame_ok_def)
  from assms(3) NoteOn have v: "0 \<le> v" "v \<le> 127" by simp_all
  from intensity_bounds[OF v vol] have "slot_ok (Active ((time_counter st + t) div sr (obj st)) ((volume st * v) div 127))"
    by (simp add: slot_ok_def)
  with reg have reg': "list_all slot_ok ((register_note st)[n := Active ((time_counter st + t) div sr (obj st)) ((volume st * v) div 127)])"
    by (rule list_all_update)
  from assms(1) NoteOn have n: "n < length (register_note st)"
    by (auto simp: Let_def split: if_splits)
  show ?thesis
  proof (cases "register_note st ! n")
    case Inactive
    with assms(1) NoteOn n vol reg' cells show ?thesis
      by (auto simp: Let_def frame_ok_def split: if_splits)
  next
    case (Active e i)
    with reg n have i: "0 \<le> i" "i \<le> 100" by (auto dest: slot_ok_nth)
    from assms(1) NoteOn n Active obtain r where
      r: "roll_assign (lroll st) idx n e ((time_counter st + t) div sr (obj st)) i = Inr r"
      and st': "lroll st' = r" "volume st' = volume st"
        "register_note st' = (register_note st)[n := Active ((time_counter st + t) div sr (obj st)) ((volume st * v) div 127)]"
      by (auto simp: Let_def split: if_splits sum.splits)
    from roll_assign_ok[OF r cells i] st' vol reg' show ?thesis
      by (simp add: frame_ok_def)
  qed
next
  case (NoteOff c n v t)
  from assms(2) have vol: "0 \<le> volume st" "volume st \<le> 100"
    and reg: "list_all slot_ok (register_note st)"
    and cells: "list_all (list_all (list_all cell_ok)) (lroll st)"
    by (simp_all add: frame_ok_def)
  from reg have reg': "list_all slot_ok ((register_note st)[n := Inactive])"
    by (rule list_all_update) (simp add: slot_ok_def)
  from assms(1) NoteOff obtain e i r where n: "n < length (register_note st)"
    and act: "register_note st ! n = Active e i"
    and r: "roll_assign (lroll st) idx n e ((time_counter st + t) div sr (obj st)) i = Inr r"
    and st': "lroll st' = r" "volume st' = volume st"
        "register_note st' = (register_note st)[n := Inactive]"
    by (auto simp: Let_def split: if_splits sum.splits slot.splits)
  from reg n act have i: "0 \<le> i" "i \<le> 100" by (auto dest: slot_ok_nth)
  from roll_assign_ok[OF r cells i] st' vol reg' show ?thesis
    by (simp add: frame_ok_def)
next
  case (ControlChange c k v t)
  from assms(2) have vol: "0 \<le> volume st" "volume st \<le> 100" by (simp_all add: frame_ok_def)
  from assms(3) ControlChange have v: "0 \<le> v" "v \<le> 127" by simp_all
  from assms(1,2) ControlChange volume7_bounds[OF v] volume11_bounds[OF v vol] show ?thesis
    by (auto simp: Let_def frame_ok_def)
qed (use assms in \<open>auto simp: frame_ok_def split: if_splits\<close>)

lemma msg_loop_ok:
  "msg_loop idx ms st = Inr st' \<Longrightarrow> frame_ok st \<Longrightarrow> \<forall>m\<in>set ms. data_in_range m \<Longrightarrow> frame_ok st'"
proof (induction ms arbitrary: st)
  case Nil
  then show ?case by simp
next
  case (Cons m ms)
  from Cons.prems(1) obtain st1 where 1: "process_msg idx m st = Inr st1"
    and 2: "msg_loop idx ms st1 = Inr st'"
    by (auto split: sum.splits)
  from 1 Cons.prems(2,3) have "frame_ok st1" by (simp add: process_msg_ok)
  with 2 Cons.prems(3) show ?case by (simp add: Cons.IH)
qed

lemma close_loop_ok:
  "close_loop idx keys st = Inr st' \<Longrightarrow> frame_ok st \<Longrightarrow>
   \<forall>key\<in>set keys. key < length (register_note st) \<Longrightarrow> frame_ok st'"
proof (induction keys arbitrary: st)
  case Nil
  then show ?case by simp
next
  case (Cons key keys)
  from Cons.prems(2) have vol: "0 \<le> volume st" "volume st \<le> 100"
    and reg: "list_all slot_ok (register_note st)"
    and cells: "list_all (list_all (list_all cell_ok)) (lroll st)"
    by (simp_all add: frame_ok_def)
  from Cons.prems(3) have key: "key < length (register_note st)" by simp
  let ?st1 = "\<lambda>r. st\<lparr>lroll := r, register_note := (register_note st)[idx := Inactive]\<rparr>"
  from reg have reg': "list_all slot_ok ((register_note st)[idx := Inactive])"
    by (rule list_all_update) (simp add: slot_ok_def)
  from Cons.prems(1) obtain r where
    r: "(case register_note st ! key of
           Inactive \<Rightarrow> Inr (lroll st)
         | Active e i \<Rightarrow> roll_assign_from (lroll st) idx key e i) = Inr r"
    and rest: "close_loop idx keys (?st1 r) = Inr st'"
    by (auto split: sum.splits if_splits)
  have "list_all (list_all (list_all cell_ok)) r"
  proof (cases "register_note st ! key")
    case Inactive
    with r cells show ?thesis by simp
  next
    case (Active e i)
    with reg key have i: "0 \<le> i" "i \<le> 100" by (auto dest: slot_ok_nth)
    from r Active have "roll_assign_from (lroll st) idx key e i = Inr r" by simp
    from roll_assign_from_ok[OF this cells i] show ?thesis .
  qed
  with vol reg' have ok: "frame_ok (?st1 r)" by (simp add: frame_ok_def)
  from Cons.prems(3) have "\<forall>k\<in>set keys. k < length (register_note (?st1 r))" by simp
  with rest ok show ?case by (rule Cons.IH)
qed

lemma channel_pass_ok:
  assumes "channel_pass idx ch st = Inr st'"
    and "list_all slot_ok (register_note st)"
    and "list_all (list_all (list_all cell_ok)) (lroll st)"
    and "\<forall>m\<in>set ch. data_in_range m"
  shows "frame_ok st'"
proof -
  from assms(1) obtain st1 where
    1: "msg_loop idx ch (st\<lparr>time_counter := 0, volume := 100\<rparr>) = Inr st1"
    and 2: "close_loop idx [0..<length (register_note st1)] st1 = Inr st'"
    by (auto simp: channel_pass_def split: sum.splits)
  from assms(2,3) have "frame_ok (st\<lparr>time_counter := 0, volume := 100\<rparr>)"
    by (simp add: frame_ok_def)
  with 1 assms(4) have "frame_ok st1" by (simp add: msg_loop_ok)
  with 2 show ?thesis by (rule close_loop_ok) simp
qed

lemma channels_loop_ok:
  "channels_loop idx evs st = Inr st' \<Longrightarrow> frame_ok st \<Longrightarrow>
   \<forall>ch\<in>set evs. \<forall>m\<in>set ch. data_in_range m \<Longrightarrow> frame_ok st'"
proof (induction evs arbitrary: idx st)
  case Nil
  then show ?case by simp
next
  case (Cons ch evs)
  from Cons.prems(1) obtain st1 where 1: "channel_pass idx ch st = Inr st1"
    and 2: "channels_loop (Suc idx) evs st1 = Inr st'"
    by (auto split: sum.splits)
  from Cons.prems(2) have "list_all slot_ok (register_note st)"
    "list_all (list_all (list_all cell_ok)) (lroll st)"
    by (simp_all add: frame_ok_def)
  with 1 Cons.prems(3) have "frame_ok st1" by (simp add: channel_pass_ok)
  with 2 Cons.prems(3) show ?case by (simp add: Cons.IH)
qed

lemma init_frame_ok: "frame_ok (init_frame self ticks)"
  by (simp add: frame_ok_def init_frame_def list_all_iff slot_ok_def cell_ok_def)

text \<open>
  C10. When every velocity and controller value lies in 0..127, \<open>volume\<close> and the
  registered intensities stay in 0..100 at every step of every pass (\<open>frame_ok\<close> holds at
  the start and is kept by every message and every pass), every cell of the matrix that
  \<open>get_roll\<close> returns is in 0..100, and the conversion of such an intensity to \<open>int8\<close>
  does not wrap.
\<close>

theorem C10_intensities_fit_int8:
  assumes "\<forall>ch\<in>set evs. \<forall>m\<in>set ch. data_in_range m"
    and "get_roll self evs = Inr (r, self')"
  shows "(\<forall>ch\<in>set r. \<forall>row\<in>set ch. \<forall>cell\<in>set row. 0 \<le> sint cell \<and> sint cell \<le> 100)
         \<and> (\<forall>ticks. frame_ok (init_frame self ticks))
         \<and> (\<forall>idx m st st'. frame_ok st \<and> data_in_range m \<and> process_msg idx m st = Inr st'
               \<longrightarrow> frame_ok st')
         \<and> (\<forall>idx ch st st'. frame_ok st \<and> (\<forall>m\<in>set ch. data_in_range m)
               \<and> channel_pass idx ch st = Inr st' \<longrightarrow> frame_ok st')
         \<and> (\<forall>i. 0 \<le> i \<and> i \<le> 100 \<longrightarrow> sint (word_of_int i :: int8) = i)"
proof -
  from get_roll_run[OF assms(2)] obtain ticks st where
    run: "channels_loop 0 evs (init_frame self ticks) = Inr st" and r: "r = lroll st"
    by blast
  from run init_frame_ok assms(1) have "frame_ok st" by (rule channels_loop_ok)
  then have cells: "\<forall>ch\<in>set r. \<forall>row\<in>set ch. \<forall>cell\<in>set row. 0 \<le> sint cell \<and> sint cell \<le> 100"
    by (simp add: frame_ok_def r list_all_iff cell_ok_def)
  have start: "\<forall>ticks. frame_ok (init_frame self ticks)"
    by (simp add: init_frame_ok)
  have step: "\<forall>idx m st st'. frame_ok st \<and> data_in_range m \<and> process_msg idx m st = Inr st'
               \<longrightarrow> frame_ok st'"
    by (blast intro: process_msg_ok)
  have pass: "\<forall>idx ch st st'. frame_ok st \<and> (\<forall>m\<in>set ch. data_in_range m)
               \<and> channel_pass idx ch st = Inr st' \<longrightarrow> frame_ok st'"
  proof (intro allI impI, elim conjE)
    fix idx ch st st'
    assume ok: "frame_ok st" and data: "\<forall>m\<in>set ch. data_in_range m"
      and run: "channel_pass idx ch st = Inr st'"
    from ok have "list_all slot_ok (register_note st)"
      "list_all (list_all (list_all cell_ok)) (lroll st)"
      by (simp_all add: frame_ok_def)
    with run show "frame_ok st'" using data by (rule channel_pass_ok)
  qed
  have exact: "\<forall>i. 0 \<le> i \<and> i \<le> 100 \<longrightarrow> sint (word_of_int i :: int8) = i"
    by (simp add: int8_exact)
  from cells start step pass exact show ?thesis by (intro conjI)
qed

theorem C10_intensities_fit_int8_witness:
  "(case get_roll ((new_MidiFile [] 480)
                     \<lparr>events := [[ControlChange 0 7 90 0, NoteOn 0 60 127 0, NoteOff 0 60 0 100]],
                      nch := 1\<rparr>)
                  [[ControlChange 0 7 90 0, NoteOn 0 60 127 0, NoteOff 0 60 0 100]] of
      Inl e \<Rightarrow> False
    | Inr (r, self') \<Rightarrow>
        (\<forall>ch\<in>set r. \<forall>row\<in>set ch. \<forall>cell\<in>set row. 0 \<le> sint cell \<and> sint cell \<le> 100))"
proof -
  let ?evs = "[[ControlChange 0 7 90 0, NoteOn 0 60 127 0, NoteOff 0 60 0 100]]"
  let ?self = "(new_MidiFile [] 480)\<lparr>events := ?evs, nch := 1\<rparr>"
  have "case get_roll ?self ?evs of Inl e \<Rightarrow> False | Inr x \<Rightarrow> True"
    by code_simp
  then obtain r self' where run: "get_roll ?self ?evs = Inr (r, self')"
    by (cases "get_roll ?self ?evs") auto
  have data: "\<forall>ch\<in>set ?evs. \<forall>m\<in>set ch. data_in_range m" by simp
  from C10_intensities_fit_int8[OF data run]
  have "\<forall>ch\<in>set r. \<forall>row\<in>set ch. \<forall>cell\<in>set row. 0 \<le> sint cell \<and> sint cell \<le> 100"
    by (elim conjE)
  with run show ?thesis by simp
qed

section \<open>The shape of the matrix\<close>
















end
